theory Spec2Isabelle
  imports Main
begin

section \<open>The container store (package store, type GardenStore)\<close>

subsection \<open>Values the store handles\<close>

text \<open>
  Go error values. The store compares errors by identity against the sentinels of the
  packages \<open>executor\<close> and \<open>gardenclient\<close>; every other error is \<open>Err\<close> with a text
  that tells it apart.
\<close>

datatype error =
    ErrContainerNotFound
  | ErrInvalidTransition
  | GardenErrContainerNotFound
  | Err string

text \<open>
  Modelled from the spec: the type \<open>executor.State\<close> is declared outside the sources at
  hand; the spec names its five values and the strings that stand for them in the host
  property \<open>executor:state\<close>.
\<close>

datatype State = StateReserved | StateInitializing | StateCreated | StateRunning | StateCompleted

fun State_string :: "State \<Rightarrow> string" where
  "State_string StateReserved = ''reserved''"
| "State_string StateInitializing = ''initializing''"
| "State_string StateCreated = ''created''"
| "State_string StateRunning = ''running''"
| "State_string StateCompleted = ''completed''"

text \<open>
  Modelled from the spec: the property keys are constants of the package declared outside
  the sources at hand; the spec gives the property schema of a host container.
\<close>

definition ContainerOwnerProperty :: string where
  "ContainerOwnerProperty = ''executor:owner''"

definition ContainerStateProperty :: string where
  "ContainerStateProperty = ''executor:state''"

definition ContainerResultProperty :: string where
  "ContainerResultProperty = ''executor:result''"

definition tagPropertyPrefix :: string where
  "tagPropertyPrefix = ''tag:''"

text \<open>The step definitions of a container are opaque to the store: a name stands for each.\<close>

datatype Action = NamedAction string

record LogConfig =
  Log_Guid :: string
  SourceName :: string
  Index :: "int option"

record ContainerRunResult =
  Failed :: bool
  FailureReason :: string

text \<open>The fields of \<open>executor.Container\<close> that the store reads or writes.\<close>

record Container =
  Guid :: string
  State :: State
  Setup :: "Action option"
  Action :: Action
  Monitor :: "Action option"
  StartTimeout :: nat
  Log :: LogConfig
  ExternalIP :: string
  Ports :: "(nat \<times> nat) list"
  Tags :: "(string \<times> string) list"
  RunResult :: ContainerRunResult

text \<open>The events the store hands to the event emitter.\<close>

datatype Event = ContainerRunningEvent Container | ContainerCompleteEvent Container

subsection \<open>The container host, as the store sees it through the garden client\<close>

text \<open>
  The host keeps its containers in the order it lists them, each with its handle and its
  properties. The remote calls the store makes are named by \<open>rpc\<close>; \<open>fault\<close> says which
  of them the host or the transport refuses, and with which error.
\<close>

datatype rpc =
    RpcLookup string
  | RpcContainers "(string \<times> string) list"
  | RpcDestroy string
  | RpcSetProperty string string string

record GardenContainer =
  Handle :: string
  Properties :: "(string \<times> string) list"

record GardenHost =
  containers :: "GardenContainer list"
  fault :: "rpc \<Rightarrow> error option"

definition find_container :: "GardenHost \<Rightarrow> string \<Rightarrow> GardenContainer option" where
  "find_container h guid = find (\<lambda>gc. Handle gc = guid) (containers h)"

text \<open>\<open>gardenClient.Lookup\<close>: the handle of the container, or an error.\<close>

definition client_Lookup :: "GardenHost \<Rightarrow> string \<Rightarrow> error + string" where
  "client_Lookup h guid =
     (case fault h (RpcLookup guid) of
        Some e \<Rightarrow> Inl e
      | None \<Rightarrow>
          (case find_container h guid of
             None \<Rightarrow> Inl GardenErrContainerNotFound
           | Some gc \<Rightarrow> Inr (Handle gc)))"

text \<open>\<open>gardenClient.Containers\<close>: the handles of the containers that carry every property of the filter.\<close>

definition matches :: "(string \<times> string) list \<Rightarrow> GardenContainer \<Rightarrow> bool" where
  "matches flt gc = list_all (\<lambda>(k, v). map_of (Properties gc) k = Some v) flt"

definition client_Containers :: "GardenHost \<Rightarrow> (string \<times> string) list \<Rightarrow> error + string list" where
  "client_Containers h flt =
     (case fault h (RpcContainers flt) of
        Some e \<Rightarrow> Inl e
      | None \<Rightarrow> Inr (map Handle (filter (matches flt) (containers h))))"

text \<open>\<open>gardenClient.Destroy\<close>.\<close>

definition client_Destroy :: "GardenHost \<Rightarrow> string \<Rightarrow> error option \<times> GardenHost" where
  "client_Destroy h guid =
     (case fault h (RpcDestroy guid) of
        Some e \<Rightarrow> (Some e, h)
      | None \<Rightarrow>
          (case find_container h guid of
             None \<Rightarrow> (Some GardenErrContainerNotFound, h)
           | Some gc \<Rightarrow> (None, h\<lparr>containers := filter (\<lambda>gc. Handle gc \<noteq> guid) (containers h)\<rparr>)))"

text \<open>\<open>gardenContainer.SetProperty\<close>, on the handle a lookup returned.\<close>

fun set_key :: "string \<Rightarrow> string \<Rightarrow> (string \<times> string) list \<Rightarrow> (string \<times> string) list" where
  "set_key k v [] = [(k, v)]"
| "set_key k v (p # ps) = (if fst p = k then (k, v) # ps else p # set_key k v ps)"

definition SetProperty :: "GardenHost \<Rightarrow> string \<Rightarrow> string \<Rightarrow> string \<Rightarrow> error option \<times> GardenHost" where
  "SetProperty h handle k v =
     (case fault h (RpcSetProperty handle k v) of
        Some e \<Rightarrow> (Some e, h)
      | None \<Rightarrow>
          (case find_container h handle of
             None \<Rightarrow> (Some GardenErrContainerNotFound, h)
           | Some gc \<Rightarrow>
               (None, h\<lparr>containers :=
                  map (\<lambda>gc. if Handle gc = handle
                             then gc\<lparr>Properties := set_key k v (Properties gc)\<rparr> else gc)
                      (containers h)\<rparr>)))"

definition property :: "GardenHost \<Rightarrow> string \<Rightarrow> string \<Rightarrow> string option" where
  "property h handle k =
     (case find_container h handle of None \<Rightarrow> None | Some gc \<Rightarrow> map_of (Properties gc) k)"

subsection \<open>The collaborators of the store\<close>

text \<open>
  The exchanger is code of the package that is not among the sources at hand; the store
  takes it as given. \<open>Garden2Executor\<close> reads a record back from the host through a
  handle, \<open>CreateInGarden\<close> makes the host container of a record.
\<close>

record Exchanger =
  Garden2Executor :: "GardenHost \<Rightarrow> string \<Rightarrow> error + Container"
  CreateInGarden :: "GardenHost \<Rightarrow> Container \<Rightarrow> (error + Container) \<times> GardenHost"

text \<open>
  The steps of package \<open>steps\<close>, as the store builds them; performing them is the work of
  that package.
\<close>

datatype Step =
    StepFor Action
  | NewMonitor Step nat int int
  | NewCodependent "Step list"
  | NewSerial "Step list"

text \<open>
  The store: the fields of \<open>GardenStore\<close> that are fixed at construction. \<open>Error\<close> is the
  method \<open>Error()\<close> of error values and \<open>json_Marshal\<close> the encoder of a run result; both
  come from packages outside the sources at hand and are taken as given.
\<close>

record GardenStore =
  exchanger :: Exchanger
  containerOwnerName :: string
  healthyMonitoringInterval :: int
  unhealthyMonitoringInterval :: int
  Error :: "error \<Rightarrow> string"
  json_Marshal :: "ContainerRunResult \<Rightarrow> error + string"

text \<open>
  A logger is the path of its sessions; a log call appends an entry to the log.
  The data attached to an entry is not modelled, except the error of \<open>logger.Error\<close>.
\<close>

type_synonym Logger = "string list"

datatype Level = DEBUG | INFO | ERROR

record LogEntry =
  log_sessions :: "string list"
  log_level :: Level
  log_message :: string
  log_err :: "error option"

text \<open>
  A step process (\<open>ifrit.Process\<close>) with the variables of its loop. A channel variable is
  \<open>None\<close> once the loop has set it to \<open>nil\<close>, else the number of values waiting in it.
\<close>

record Process =
  p_step :: Step
  p_monitorStep :: "Step option"
  p_gardenContainer :: string
  p_logger :: Logger
  p_signals :: "nat option"
  p_hasStartedRunning :: "nat option"
  p_result :: ContainerRunResult
  p_cancelled :: "Step list"
  p_exited :: bool

text \<open>
  Everything the store changes: the host, the tracker (modelled from the spec: a mapping
  from guid to record), the events handed to the event emitter, the log, the table of
  running processes (guid to process), and the processes themselves, which outlive their
  entry in the table.
\<close>

record World =
  host :: GardenHost
  tracker :: "string \<rightharpoonup> Container"
  events :: "Event list"
  logs :: "LogEntry list"
  runningProcesses :: "string \<rightharpoonup> nat"
  processes :: "Process list"

definition Session :: "Logger \<Rightarrow> string \<Rightarrow> Logger" where
  "Session logger name = logger @ [name]"

definition log_entry :: "Level \<Rightarrow> Logger \<Rightarrow> string \<Rightarrow> error option \<Rightarrow> World \<Rightarrow> World" where
  "log_entry lv logger msg e w =
     w\<lparr>logs := logs w @ [\<lparr>log_sessions = logger, log_level = lv, log_message = msg, log_err = e\<rparr>]\<rparr>"

abbreviation Info :: "Logger \<Rightarrow> string \<Rightarrow> World \<Rightarrow> World" where
  "Info logger msg \<equiv> log_entry INFO logger msg None"

abbreviation Debug :: "Logger \<Rightarrow> string \<Rightarrow> World \<Rightarrow> World" where
  "Debug logger msg \<equiv> log_entry DEBUG logger msg None"

abbreviation LogError :: "Logger \<Rightarrow> string \<Rightarrow> error option \<Rightarrow> World \<Rightarrow> World" where
  "LogError logger msg e \<equiv> log_entry ERROR logger msg e"

text \<open>Modelled from the spec: the tracker adds or updates the record of a guid, and removes it.\<close>

definition Initialize :: "Container \<Rightarrow> World \<Rightarrow> World" where
  "Initialize c w = w\<lparr>tracker := (tracker w)(Guid c \<mapsto> c)\<rparr>"

definition Deinitialize :: "string \<Rightarrow> World \<Rightarrow> World" where
  "Deinitialize guid w = w\<lparr>tracker := (tracker w)(guid := None)\<rparr>"

definition EmitEvent :: "Event \<Rightarrow> World \<Rightarrow> World" where
  "EmitEvent ev w = w\<lparr>events := events w @ [ev]\<rparr>"

subsection \<open>Lookup, List, Create\<close>

text \<open>
  The zero value \<open>executor.Container{}\<close>, returned beside every error. Go's zero
  \<open>State\<close> is the empty string, which is none of the five states; the model returns no
  record beside an error instead (a sum type), so the zero value is never built.
\<close>

definition Lookup :: "GardenStore \<Rightarrow> string \<Rightarrow> World \<Rightarrow> error + Container" where
  "Lookup store guid w =
     (case client_Lookup (host w) guid of
        Inl e \<Rightarrow> Inl ErrContainerNotFound
      | Inr gardenContainer \<Rightarrow> Garden2Executor (exchanger store) (host w) gardenContainer)"

text \<open>The filter of \<open>List\<close>: the owner, then one entry for each tag (a map: a later key replaces).\<close>

definition list_filter :: "GardenStore \<Rightarrow> (string \<times> string) list \<Rightarrow> (string \<times> string) list" where
  "list_filter store tags =
     fold (\<lambda>(k, v) flt. set_key (tagPropertyPrefix @ k) v flt) tags
       [(ContainerOwnerProperty, containerOwnerName store)]"

text \<open>The loop of \<open>List\<close> over the host's containers: one that does not read back is passed over.\<close>

fun list_loop :: "GardenStore \<Rightarrow> GardenHost \<Rightarrow> string list \<Rightarrow> Container list \<Rightarrow> Container list" where
  "list_loop store h [] result = result"
| "list_loop store h (gardenContainer # rest) result =
     (case Garden2Executor (exchanger store) h gardenContainer of
        Inl e \<Rightarrow> list_loop store h rest result
      | Inr container \<Rightarrow> list_loop store h rest (result @ [container]))"

text \<open>
  \<open>List\<close> takes no logger and emits nothing; the world it returns shows what it has
  left behind.
\<close>

definition List :: "GardenStore \<Rightarrow> (string \<times> string) list \<Rightarrow> World \<Rightarrow> (error + Container list) \<times> World" where
  "List store tags w =
     (case client_Containers (host w) (list_filter store tags) of
        Inl e \<Rightarrow> (Inl ErrContainerNotFound, w)
      | Inr gardenContainers \<Rightarrow> (Inr (list_loop store (host w) gardenContainers []), w))"

definition Create :: "GardenStore \<Rightarrow> Logger \<Rightarrow> Container \<Rightarrow> World \<Rightarrow> (error + Container) \<times> World" where
  "Create store logger container w =
     (if State container \<noteq> StateInitializing then (Inl ErrInvalidTransition, w)
      else
        (case CreateInGarden (exchanger store) (host w) (container\<lparr>State := StateCreated\<rparr>) of
           (Inl e, h) \<Rightarrow> (Inl e, w\<lparr>host := h\<rparr>)
         | (Inr created, h) \<Rightarrow> (Inr created, Initialize created (w\<lparr>host := h\<rparr>))))"

text \<open>
  What the listing is to return: the records of the host's containers that read back, in
  the host's order.
\<close>

definition remaining_records :: "GardenStore \<Rightarrow> GardenHost \<Rightarrow> string list \<Rightarrow> Container list" where
  "remaining_records store h gardenContainers =
     concat (map (\<lambda>gardenContainer.
                    case Garden2Executor (exchanger store) h gardenContainer of
                      Inl e \<Rightarrow> []
                    | Inr container \<Rightarrow> [container])
                 gardenContainers)"

subsection \<open>Signalling and freeing a step process, Destroy\<close>

text \<open>
  \<open>process.Signal\<close>: one more signal waits for the process, unless its loop has stopped
  listening or the process is gone.
\<close>

definition Signal :: "nat \<Rightarrow> World \<Rightarrow> World" where
  "Signal pid w =
     (if pid < length (processes w)
      then w\<lparr>processes := (processes w)
             [pid := (processes w ! pid)\<lparr>p_signals := map_option Suc (p_signals (processes w ! pid))\<rparr>]\<rparr>
      else w)"

definition freeStepProcess :: "Logger \<Rightarrow> string \<Rightarrow> World \<Rightarrow> nat option \<times> World" where
  "freeStepProcess logger0 guid w0 =
     (let logger = Session logger0 ''freeing-step-process'';
          w1 = Info logger ''started'' w0;
          found = runningProcesses w1 guid;
          w2 = w1\<lparr>runningProcesses := (runningProcesses w1)(guid := None)\<rparr>
      in case found of
           None \<Rightarrow> (None, Info logger ''finished'' w2)
         | Some process \<Rightarrow>
             (Some process,
              Info logger ''finished'' (Signal process (Info logger ''interrupting-process'' w2))))"

definition Destroy :: "GardenStore \<Rightarrow> Logger \<Rightarrow> string \<Rightarrow> World \<Rightarrow> error option \<times> World" where
  "Destroy store logger0 guid w0 =
     (let logger = Session logger0 ''destroying-container'';
          w1 = Info logger ''started'' w0;
          w2 = snd (freeStepProcess logger guid w1)
      in case client_Destroy (host w2) guid of
           (Some e, h) \<Rightarrow>
             (Some e, LogError logger ''failed-to-destroy-garden-container'' (Some e) (w2\<lparr>host := h\<rparr>))
         | (None, h) \<Rightarrow>
             (None, Info logger ''succeeded'' (Deinitialize guid (w2\<lparr>host := h\<rparr>))))"

subsection \<open>The two transitions written to the host\<close>


definition transitionToComplete ::
  "GardenStore \<Rightarrow> string \<Rightarrow> ContainerRunResult \<Rightarrow> World \<Rightarrow> error option \<times> World" where
  "transitionToComplete store gardenContainer res w =
     (case json_Marshal store res of
        Inl e \<Rightarrow> (Some e, w)
      | Inr resultJson \<Rightarrow>
          (case SetProperty (host w) gardenContainer ContainerResultProperty resultJson of
             (Some e, h1) \<Rightarrow> (Some e, w\<lparr>host := h1\<rparr>)
           | (None, h1) \<Rightarrow>
               (case SetProperty h1 gardenContainer ContainerStateProperty (State_string StateCompleted) of
                  (Some e, h2) \<Rightarrow> (Some e, w\<lparr>host := h2\<rparr>)
                | (None, h2) \<Rightarrow>
                    (case Garden2Executor (exchanger store) h2 gardenContainer of
                       Inl e \<Rightarrow> (Some e, w\<lparr>host := h2\<rparr>)
                     | Inr executorContainer \<Rightarrow>
                         (None, EmitEvent (ContainerCompleteEvent executorContainer)
                                  (w\<lparr>host := h2\<rparr>))))))"

subsection \<open>Run and the step process\<close>

text \<open>
  \<open>runStepProcess\<close>, up to its return: \<open>ifrit.Invoke\<close> starts the process and waits until
  it has closed \<open>ready\<close>, which it does before it enters its loop; the process is then
  stored in the table under the guid. \<open>tokens\<close> is what waits in \<open>hasStartedRunning\<close>
  when the process starts.
\<close>

definition runStepProcess ::
  "Logger \<Rightarrow> Step \<Rightarrow> Step option \<Rightarrow> nat \<Rightarrow> string \<Rightarrow> string \<Rightarrow> World \<Rightarrow> World" where
  "runStepProcess logger stp monitor tokens gardenContainer guid w =
     (let process = \<lparr>p_step = stp, p_monitorStep = monitor, p_gardenContainer = gardenContainer,
                     p_logger = Session logger ''running-step-process'',
                     p_signals = Some 0, p_hasStartedRunning = Some tokens,
                     p_result = \<lparr>Failed = False, FailureReason = []\<rparr>,
                     p_cancelled = [], p_exited = False\<rparr>;
          w1 = Info (p_logger process) ''started'' w;
          w2 = w1\<lparr>processes := processes w1 @ [process],
                  runningProcesses := (runningProcesses w1)(guid \<mapsto> length (processes w1))\<rparr>
      in Debug logger ''stored-step-process'' w2)"

definition Run :: "GardenStore \<Rightarrow> Logger \<Rightarrow> Container \<Rightarrow> World \<Rightarrow> error option \<times> World" where
  "Run store logger0 container w0 =
     (let logger = Session logger0 ''running-container'';
          w1 = Info logger ''started'' w0
      in case client_Lookup (host w1) (Guid container) of
           Inl e \<Rightarrow>
             (if e = GardenErrContainerNotFound
              then (Some e, Info logger ''finished''
                      (LogError logger ''garden-container-not-found'' None w1))
              else (Some e, Info logger ''finished''
                      (LogError logger ''failed-to-lookup-garden-container'' (Some e) w1)))
         | Inr gardenContainer \<Rightarrow>
             (let w2 = Debug logger ''found-garden-container'' w1
              in if State container \<noteq> StateCreated
                 then
                   (let w3 = Debug logger ''container-invalid-state-transition'' w2;
                        transitionErr = ErrInvalidTransition;
                        res = \<lparr>Failed = True, FailureReason = Error store transitionErr\<rparr>
                    in case transitionToComplete store gardenContainer res w3 of
                         (Some e, w4) \<Rightarrow>
                           (Some transitionErr, Info logger ''finished''
                              (LogError logger ''failed-transition-to-complete'' (Some e) w4))
                       | (None, w4) \<Rightarrow> (Some transitionErr, Info logger ''finished'' w4))
                 else
                   (let seq = (case Setup container of None \<Rightarrow> [] | Some a \<Rightarrow> [StepFor a]);
                        parallelSequence = [StepFor (Action container)];
                        monitor = (case Monitor container of
                                     None \<Rightarrow> None
                                   | Some m \<Rightarrow>
                                       Some (NewMonitor (StepFor m) (StartTimeout container)
                                               (healthyMonitoringInterval store)
                                               (unhealthyMonitoringInterval store)));
                        parallelSequence' = (case monitor of
                                               None \<Rightarrow> parallelSequence
                                             | Some monitorStep \<Rightarrow> parallelSequence @ [monitorStep]);
                        tokens = (case monitor of None \<Rightarrow> Suc 0 | Some monitorStep \<Rightarrow> 0);
                        stp = NewSerial (seq @ [NewCodependent parallelSequence'])
                    in (None, Info logger ''finished''
                          (runStepProcess logger stp monitor tokens gardenContainer
                             (Guid container) w2)))))"






section \<open>The execute action (package execute_action)\<close>

text \<open>The fields of \<open>models.RunOnce\<close> that the action reads or writes.\<close>

record RunOnce =
  RunOnce_Guid :: string
  ContainerHandle :: string
  RunOnce_Failed :: bool
  RunOnce_FailureReason :: string

datatype RunnerCall = RunnerPerform | RunnerCancel | RunnerCleanup

text \<open>
  \<open>ExecuteAction\<close> holds three pointers; what they point to is the state the action
  works on: the RunOnce record, the entries of the logger (data and message), the calls
  made on the inner action runner, and the values sent on the channel \<open>result\<close>.
\<close>

record ActionState =
  runOnce :: RunOnce
  steno :: "((string \<times> string) list \<times> string) list"
  actionRunner :: "RunnerCall list"
  result_chan :: "error option list"

text \<open>
  \<open>Perform\<close> up to its reception from \<open>actionResult\<close>: the inner runner's \<open>Perform\<close> is
  started on a channel of its own.
\<close>

definition Perform_start :: "ActionState \<Rightarrow> ActionState" where
  "Perform_start a = a\<lparr>actionRunner := actionRunner a @ [RunnerPerform]\<rparr>"

text \<open>
  \<open>Perform\<close> from the reception of \<open>err\<close> on; \<open>E\<close> is the method \<open>Error()\<close> of error
  values.
\<close>

definition Perform_finish :: "(error \<Rightarrow> string) \<Rightarrow> error option \<Rightarrow> ActionState \<Rightarrow> ActionState" where
  "Perform_finish E received a =
     (let a1 = (case received of
                  None \<Rightarrow> a
                | Some e \<Rightarrow>
                    a\<lparr>steno := steno a @
                         [([(''runonce-guid'', RunOnce_Guid (runOnce a)),
                            (''handle'', ContainerHandle (runOnce a)),
                            (''error'', E e)],
                           ''runonce.actions.failed'')],
                      runOnce := (runOnce a)\<lparr>RunOnce_Failed := True, RunOnce_FailureReason := E e\<rparr>\<rparr>)
      in a1\<lparr>result_chan := result_chan a1 @ [None]\<rparr>)"

definition Cancel :: "ActionState \<Rightarrow> ActionState" where
  "Cancel a = a"

definition Cleanup :: "ActionState \<Rightarrow> ActionState" where
  "Cleanup a = a"

text \<open>
  What reaches the action while \<open>Perform\<close> waits for the inner runner: calls of \<open>Cancel\<close>
  and \<open>Cleanup\<close>, and the value the inner runner sends. \<open>Perform\<close> has returned
  (\<open>True\<close>) once that value has come; until then it is blocked (\<open>False\<close>).
\<close>

datatype Arrival = CancelCalled | CleanupCalled | RunnerSent "error option"

fun Perform_waiting :: "(error \<Rightarrow> string) \<Rightarrow> Arrival list \<Rightarrow> ActionState \<Rightarrow> bool \<times> ActionState" where
  "Perform_waiting E [] a = (False, a)"
| "Perform_waiting E (CancelCalled # xs) a = Perform_waiting E xs (Cancel a)"
| "Perform_waiting E (CleanupCalled # xs) a = Perform_waiting E xs (Cleanup a)"
| "Perform_waiting E (RunnerSent received # xs) a = (True, Perform_finish E received a)"

definition Perform :: "(error \<Rightarrow> string) \<Rightarrow> Arrival list \<Rightarrow> ActionState \<Rightarrow> bool \<times> ActionState" where
  "Perform E xs a = Perform_waiting E xs (Perform_start a)"

section \<open>Concrete stores, hosts and records\<close>

text \<open>An exchanger that keeps the state of a record in the host property of that name.\<close>

definition parse_State :: "string \<Rightarrow> State option" where
  "parse_State s =
     find (\<lambda>st. State_string st = s)
       [StateReserved, StateInitializing, StateCreated, StateRunning, StateCompleted]"

definition blank_container :: "string \<Rightarrow> State \<Rightarrow> Container" where
  "blank_container guid st =
     \<lparr>Guid = guid, State = st, Setup = None, Action = NamedAction ''run'', Monitor = None,
      StartTimeout = 0, Log = \<lparr>Log_Guid = [], SourceName = [], Index = None\<rparr>,
      ExternalIP = [], Ports = [], Tags = [],
      RunResult = \<lparr>Failed = False, FailureReason = []\<rparr>\<rparr>"

definition example_exchanger :: Exchanger where
  "example_exchanger =
     \<lparr>Garden2Executor = (\<lambda>h handle.
         case property h handle ContainerStateProperty of
           None \<Rightarrow> Inl (Err ''no state property'')
         | Some s \<Rightarrow>
             (case parse_State s of
                None \<Rightarrow> Inl (Err ''unknown state'')
              | Some st \<Rightarrow> Inr (blank_container handle st))),
      CreateInGarden = (\<lambda>h c.
         if Guid c = [] then (Inl (Err ''no handle''), h)
         else (Inr c,
               h\<lparr>containers := containers h @
                    [\<lparr>Handle = Guid c,
                      Properties = [(ContainerOwnerProperty, ''executor''),
                                    (ContainerStateProperty, State_string (State c))]\<rparr>]\<rparr>))\<rparr>"

definition example_Error :: "error \<Rightarrow> string" where
  "example_Error e =
     (case e of
        ErrContainerNotFound \<Rightarrow> ''ContainerNotFound''
      | ErrInvalidTransition \<Rightarrow> ''InvalidStateTransition''
      | GardenErrContainerNotFound \<Rightarrow> ''container not found''
      | Err s \<Rightarrow> s)"

definition example_store :: GardenStore where
  "example_store =
     \<lparr>exchanger = example_exchanger, containerOwnerName = ''executor'',
      healthyMonitoringInterval = 30, unhealthyMonitoringInterval = 1,
      Error = example_Error,
      json_Marshal = (\<lambda>r. Inr ((if Failed r then ''failed: '' else ''ok: '') @ FailureReason r))\<rparr>"

definition example_world :: "GardenContainer list \<Rightarrow> (rpc \<Rightarrow> error option) \<Rightarrow> World" where
  "example_world cs f =
     \<lparr>host = \<lparr>containers = cs, fault = f\<rparr>, tracker = Map.empty, events = [], logs = [],
      runningProcesses = Map.empty, processes = []\<rparr>"

definition no_fault :: "rpc \<Rightarrow> error option" where
  "no_fault r = None"

definition unreachable :: "rpc \<Rightarrow> error option" where
  "unreachable r = Some (Err ''connection refused'')"

definition refuses :: "rpc \<Rightarrow> error \<Rightarrow> rpc \<Rightarrow> error option" where
  "refuses call e r = (if r = call then Some e else None)"

definition created_a :: GardenContainer where
  "created_a =
     \<lparr>Handle = ''a'',
      Properties = [(ContainerOwnerProperty, ''executor''), (ContainerStateProperty, ''created'')]\<rparr>"

definition stateless_b :: GardenContainer where
  "stateless_b = \<lparr>Handle = ''b'', Properties = [(ContainerOwnerProperty, ''executor'')]\<rparr>"

definition example_runOnce :: ActionState where
  "example_runOnce =
     \<lparr>runOnce = \<lparr>RunOnce_Guid = ''r'', ContainerHandle = ''h'', RunOnce_Failed = False,
                 RunOnce_FailureReason = []\<rparr>,
      steno = [], actionRunner = [], result_chan = []\<rparr>"

text \<open>The world after \<open>Create\<close> has made and tracked the container \<open>a\<close> on an empty host.\<close>

definition tracked_world :: "(rpc \<Rightarrow> error option) \<Rightarrow> World" where
  "tracked_world f =
     snd (Create example_store [] (blank_container ''a'' StateInitializing) (example_world [] f))"





section \<open>Facts about the host and the examples\<close>







lemma list_loop_append:
  "list_loop store h gcs acc = acc @ remaining_records store h gcs"
  by (induction gcs arbitrary: acc) (auto simp: remaining_records_def split: sum.splits)

lemma freeStepProcess_keeps:
  "host (snd (freeStepProcess logger guid w)) = host w"
  "tracker (snd (freeStepProcess logger guid w)) = tracker w"
  "events (snd (freeStepProcess logger guid w)) = events w"
  by (simp_all add: freeStepProcess_def Let_def log_entry_def Signal_def split: option.splits)

lemma Perform_waiting_calls:
  "\<forall>x \<in> set xs. x = CancelCalled \<or> x = CleanupCalled \<Longrightarrow>
     Perform_waiting E (xs @ ys) a = Perform_waiting E ys a"
  by (induction xs) (auto simp: Cancel_def Cleanup_def)

lemma eval_filter: "list_filter example_store [] = [(''executor:owner'', ''executor'')]"
  by (simp add: list_filter_def example_store_def ContainerOwnerProperty_def)

lemma eval_listing:
  "client_Containers (host (example_world [stateless_b, created_a] no_fault))
     (list_filter example_store []) = Inr [''b'', ''a'']"
  by (simp add: eval_filter client_Containers_def example_world_def no_fault_def matches_def
      stateless_b_def created_a_def ContainerOwnerProperty_def ContainerStateProperty_def)

lemma eval_read_b:
  "Garden2Executor (exchanger example_store) (host (example_world [stateless_b, created_a] no_fault)) ''b''
     = Inl (Err ''no state property'')"
  by (simp add: example_world_def stateless_b_def created_a_def ContainerOwnerProperty_def
      ContainerStateProperty_def example_store_def example_exchanger_def property_def
      find_container_def)

lemma eval_read_a:
  "Garden2Executor (exchanger example_store) (host (example_world [stateless_b, created_a] no_fault)) ''a''
     = Inr (blank_container ''a'' StateCreated)"
  by (simp add: example_world_def stateless_b_def created_a_def ContainerOwnerProperty_def
      ContainerStateProperty_def example_store_def example_exchanger_def property_def
      find_container_def parse_State_def)

lemma tracked_world_eq:
  "tracked_world f =
     \<lparr>host = \<lparr>containers = [created_a], fault = f\<rparr>,
      tracker = [''a'' \<mapsto> blank_container ''a'' StateCreated],
      events = [], logs = [], runningProcesses = Map.empty, processes = []\<rparr>"
  by (simp add: tracked_world_def Create_def example_store_def example_exchanger_def
      blank_container_def example_world_def Initialize_def created_a_def)

lemma eval_destroy_refused:
  "client_Destroy (host (tracked_world (refuses (RpcDestroy ''a'') (Err ''busy'')))) ''a''
     = (Some (Err ''busy''), host (tracked_world (refuses (RpcDestroy ''a'') (Err ''busy''))))"
  by (simp add: tracked_world_eq client_Destroy_def refuses_def)

lemma eval_destroy_accepted:
  "fst (client_Destroy (host (tracked_world no_fault)) ''a'') = None"
  by (simp add: tracked_world_eq client_Destroy_def no_fault_def find_container_def created_a_def)

lemma eval_create_ok:
  "CreateInGarden (exchanger example_store) (host (example_world [] no_fault))
     ((blank_container ''a'' StateInitializing)\<lparr>State := StateCreated\<rparr>)
   = (Inr (blank_container ''a'' StateCreated), \<lparr>containers = [created_a], fault = no_fault\<rparr>)"
  by (simp add: example_store_def example_exchanger_def blank_container_def example_world_def
      created_a_def)

lemma eval_create_fails:
  "CreateInGarden (exchanger example_store) (host (example_world [] no_fault))
     ((blank_container [] StateInitializing)\<lparr>State := StateCreated\<rparr>)
   = (Inl (Err ''no handle''), host (example_world [] no_fault))"
  by (simp add: example_store_def example_exchanger_def blank_container_def example_world_def)

subsection \<open>The transitions and the loop of the step process\<close>
















section \<open>Create\<close>

text \<open>
  C2. A record that is not Initializing is refused with InvalidTransition and the world is
  left as it was: no host container is made and the tracker is unchanged. For a record
  in Initializing, the exchanger is called on the record with its state set to Created;
  when it succeeds, its record is returned, the host is the one it produced and the
  tracker holds the record under its guid; when it fails, its error is returned and the
  tracker is unchanged.
\<close>

theorem Create_transitions:
  "(State container \<noteq> StateInitializing \<longrightarrow>
      fst (Create store logger container w) = Inl ErrInvalidTransition
    \<and> snd (Create store logger container w) = w)
   \<and> (State container = StateInitializing \<longrightarrow>
        (\<forall>created h. CreateInGarden (exchanger store) (host w) (container\<lparr>State := StateCreated\<rparr>) = (Inr created, h) \<longrightarrow>
           fst (Create store logger container w) = Inr created
         \<and> host (snd (Create store logger container w)) = h
         \<and> tracker (snd (Create store logger container w)) = (tracker w)(Guid created \<mapsto> created))
      \<and> (\<forall>e h. CreateInGarden (exchanger store) (host w) (container\<lparr>State := StateCreated\<rparr>) = (Inl e, h) \<longrightarrow>
           fst (Create store logger container w) = Inl e
         \<and> tracker (snd (Create store logger container w)) = tracker w))"
  by (simp add: Create_def Initialize_def)

text \<open>
  The three cases on the example store: a record already Created (scenario S4), a record
  in Initializing, and a record in Initializing that the host refuses.
\<close>

theorem Create_transitions_witness:
  "State (blank_container ''a'' StateCreated) \<noteq> StateInitializing
   \<and> Create example_store [] (blank_container ''a'' StateCreated) (tracked_world no_fault)
       = (Inl ErrInvalidTransition, tracked_world no_fault)
   \<and> State (blank_container ''a'' StateInitializing) = StateInitializing
   \<and> fst (Create example_store [] (blank_container ''a'' StateInitializing) (example_world [] no_fault))
       = Inr (blank_container ''a'' StateCreated)
   \<and> containers (host (snd (Create example_store [] (blank_container ''a'' StateInitializing) (example_world [] no_fault))))
       = [created_a]
   \<and> tracker (snd (Create example_store [] (blank_container ''a'' StateInitializing) (example_world [] no_fault))) ''a''
       = Some (blank_container ''a'' StateCreated)
   \<and> fst (Create example_store [] (blank_container [] StateInitializing) (example_world [] no_fault))
       = Inl (Err ''no handle'')
   \<and> tracker (snd (Create example_store [] (blank_container [] StateInitializing) (example_world [] no_fault))) []
       = None"
proof -
  have a: "State (blank_container ''a'' StateCreated) \<noteq> StateInitializing"
    and b: "State (blank_container g StateInitializing) = StateInitializing" for g
    by (simp_all add: blank_container_def)
  show ?thesis
    using a b
      Create_transitions [of "blank_container ''a'' StateCreated" example_store "[]" "tracked_world no_fault"]
      Create_transitions [of "blank_container ''a'' StateInitializing" example_store "[]" "example_world [] no_fault"]
      Create_transitions [of "blank_container [] StateInitializing" example_store "[]" "example_world [] no_fault"]
      eval_create_ok eval_create_fails
    by (simp add: prod_eq_iff) (simp add: example_world_def blank_container_def)
qed

section \<open>List\<close>

text \<open>
  C7, as the code has it. When the host's listing of containers fails, whatever the
  error, \<open>List\<close> returns \<open>ErrContainerNotFound\<close>, the store's NotFound error, and changes
  nothing.
\<close>

theorem List_host_failure:
  assumes "client_Containers (host w) (list_filter store tags) = Inl e"
  shows "List store tags w = (Inl ErrContainerNotFound, w)"
  using assms by (simp add: List_def)

theorem List_host_failure_witness:
  "client_Containers (host (example_world [created_a] unreachable)) (list_filter example_store [])
     = Inl (Err ''connection refused'')
   \<and> List example_store [] (example_world [created_a] unreachable)
       = (Inl ErrContainerNotFound, example_world [created_a] unreachable)"
proof -
  have h: "client_Containers (host (example_world [created_a] unreachable)) (list_filter example_store [])
     = Inl (Err ''connection refused'')"
    by (simp add: client_Containers_def example_world_def unreachable_def)
  show ?thesis using h List_host_failure [OF h] by simp
qed

text \<open>
  C7 as the claim states it fails: on a host that refuses the listing with a transport
  error, the error \<open>List\<close> returns is the NotFound error, not the host's.
\<close>

theorem List_host_failure_counterexample:
  "fault (host (example_world [created_a] unreachable)) (RpcContainers (list_filter example_store []))
     = Some (Err ''connection refused'')
   \<and> fst (List example_store [] (example_world [created_a] unreachable)) = Inl ErrContainerNotFound"
  by (simp add: List_def client_Containers_def example_world_def unreachable_def)

text \<open>
  C8, as the code has it. When the host's listing succeeds, \<open>List\<close> returns without error
  the records of the containers that read back, in the host's order; a container that
  does not read back is passed over, and \<open>List\<close> leaves no trace of it: the log, the
  events and the rest of the world are as before.
\<close>

theorem List_passes_over:
  assumes "client_Containers (host w) (list_filter store tags) = Inr gardenContainers"
  shows "List store tags w = (Inr (remaining_records store (host w) gardenContainers), w)"
  using assms by (simp add: List_def list_loop_append)

theorem List_passes_over_witness:
  "client_Containers (host (example_world [stateless_b, created_a] no_fault))
     (list_filter example_store []) = Inr [''b'', ''a'']
   \<and> List example_store [] (example_world [stateless_b, created_a] no_fault)
     = (Inr (remaining_records example_store (host (example_world [stateless_b, created_a] no_fault)) [''b'', ''a'']),
        example_world [stateless_b, created_a] no_fault)"
  using eval_listing List_passes_over [OF eval_listing] by simp

text \<open>
  C8 as the claim states it fails in its first part: container \<open>b\<close> does not read back,
  \<open>List\<close> returns the record of \<open>a\<close> alone and no error, and nothing is reported: the
  world is returned as it was, with its empty log.
\<close>

theorem List_passes_over_counterexample:
  "List example_store [] (example_world [stateless_b, created_a] no_fault)
     = (Inr [blank_container ''a'' StateCreated], example_world [stateless_b, created_a] no_fault)
   \<and> Garden2Executor (exchanger example_store) (host (example_world [stateless_b, created_a] no_fault)) ''b''
       = Inl (Err ''no state property'')
   \<and> logs (example_world [stateless_b, created_a] no_fault) = []"
  by (simp add: List_def eval_listing eval_read_a eval_read_b) (simp add: example_world_def)

section \<open>Destroy\<close>

text \<open>
  C6, as the code has it. When the host fails to destroy the container, \<open>Destroy\<close> logs
  the host's error, returns it, and leaves the tracker as it was; the entry of the guid
  is removed from the tracker when the host has destroyed the container.
\<close>

theorem Destroy_tracker:
  "(\<forall>e. fst (client_Destroy (host w) guid) = Some e \<longrightarrow>
      fst (Destroy store logger guid w) = Some e
    \<and> tracker (snd (Destroy store logger guid w)) = tracker w
    \<and> last (logs (snd (Destroy store logger guid w)))
        = \<lparr>log_sessions = Session logger ''destroying-container'', log_level = ERROR,
           log_message = ''failed-to-destroy-garden-container'', log_err = Some e\<rparr>)
   \<and> (fst (client_Destroy (host w) guid) = None \<longrightarrow>
        fst (Destroy store logger guid w) = None
      \<and> tracker (snd (Destroy store logger guid w)) = (tracker w)(guid := None))"
  by (cases "client_Destroy (host w) guid")
     (auto simp: Destroy_def Let_def freeStepProcess_keeps log_entry_def Deinitialize_def
       split: option.splits)

theorem Destroy_tracker_witness:
  "fst (client_Destroy (host (tracked_world (refuses (RpcDestroy ''a'') (Err ''busy'')))) ''a'')
     = Some (Err ''busy'')
   \<and> fst (Destroy example_store [] ''a'' (tracked_world (refuses (RpcDestroy ''a'') (Err ''busy''))))
       = Some (Err ''busy'')
   \<and> tracker (snd (Destroy example_store [] ''a'' (tracked_world (refuses (RpcDestroy ''a'') (Err ''busy''))))) ''a''
       = Some (blank_container ''a'' StateCreated)
   \<and> fst (client_Destroy (host (tracked_world no_fault)) ''a'') = None
   \<and> fst (Destroy example_store [] ''a'' (tracked_world no_fault)) = None
   \<and> tracker (snd (Destroy example_store [] ''a'' (tracked_world no_fault))) ''a'' = None"
  using Destroy_tracker [of "tracked_world (refuses (RpcDestroy ''a'') (Err ''busy''))" "''a''" example_store "[]"]
        Destroy_tracker [of "tracked_world no_fault" "''a''" example_store "[]"]
        eval_destroy_refused eval_destroy_accepted
  by (simp add: tracked_world_eq)

text \<open>
  C6 as the claim states it fails: the host refuses to destroy the tracked container
  \<open>a\<close>, \<open>Destroy\<close> returns the host's error, and \<open>a\<close> is still in the tracker.
\<close>

theorem Destroy_tracker_counterexample:
  "fst (Destroy example_store [] ''a'' (tracked_world (refuses (RpcDestroy ''a'') (Err ''busy''))))
     = Some (Err ''busy'')
   \<and> tracker (tracked_world (refuses (RpcDestroy ''a'') (Err ''busy''))) ''a''
       = Some (blank_container ''a'' StateCreated)
   \<and> tracker (snd (Destroy example_store [] ''a'' (tracked_world (refuses (RpcDestroy ''a'') (Err ''busy''))))) ''a''
       = Some (blank_container ''a'' StateCreated)"
  by (simp add: Destroy_def Let_def freeStepProcess_keeps eval_destroy_refused log_entry_def)
     (simp add: tracked_world_eq freeStepProcess_keeps)

section \<open>Run\<close>

text \<open>
  C10. \<open>Run\<close> looks the host container up before it looks at the state of the record:
  when the host has no container for the guid, \<open>Run\<close> returns the error of the lookup
  (the garden client's NotFound error, unless the call itself failed with another), and
  the host, the events, the tracker and the processes are as before, whatever the state
  of the record.
\<close>

theorem Run_lookup_first:
  assumes "find_container (host w) (Guid container) = None"
  shows "fst (Run store logger container w)
           = Some (case fault (host w) (RpcLookup (Guid container)) of
                     None \<Rightarrow> GardenErrContainerNotFound | Some e \<Rightarrow> e)
         \<and> host (snd (Run store logger container w)) = host w
         \<and> events (snd (Run store logger container w)) = events w
         \<and> tracker (snd (Run store logger container w)) = tracker w
         \<and> runningProcesses (snd (Run store logger container w)) = runningProcesses w
         \<and> processes (snd (Run store logger container w)) = processes w"
  using assms
  by (auto simp: Run_def Let_def client_Lookup_def log_entry_def split: option.splits)

theorem Run_lookup_first_witness:
  "find_container (host (example_world [created_a] no_fault)) (Guid (blank_container ''z'' StateInitializing)) = None
   \<and> fst (Run example_store [] (blank_container ''z'' StateInitializing) (example_world [created_a] no_fault))
       = Some GardenErrContainerNotFound
   \<and> host (snd (Run example_store [] (blank_container ''z'' StateInitializing) (example_world [created_a] no_fault)))
       = host (example_world [created_a] no_fault)
   \<and> events (snd (Run example_store [] (blank_container ''z'' StateInitializing) (example_world [created_a] no_fault)))
       = []"
proof -
  have h: "find_container (host (example_world [created_a] no_fault)) (Guid (blank_container ''z'' StateInitializing)) = None"
    by (simp add: find_container_def example_world_def created_a_def blank_container_def)
  show ?thesis
    using h Run_lookup_first [OF h, of example_store "[]"]
    by (simp add: example_world_def no_fault_def)
qed




section \<open>The step process\<close>







section \<open>ExecuteAction\<close>



text \<open>
  C9. \<open>Cancel\<close> and \<open>Cleanup\<close> change nothing. While \<open>Perform\<close> waits for the inner
  runner, any number of calls of \<open>Cancel\<close> and \<open>Cleanup\<close> leave it waiting, with the start
  of the inner runner's \<open>Perform\<close> as the only call made on the inner runner; once the
  inner runner sends its result, \<open>Perform\<close> finishes as if no call had been made.
\<close>

theorem Cancel_Cleanup_no_ops:
  "Cancel a = a \<and> Cleanup a = a
   \<and> ((\<forall>x \<in> set xs. x = CancelCalled \<or> x = CleanupCalled) \<longrightarrow>
        Perform E xs a = (False, Perform_start a)
      \<and> actionRunner (snd (Perform E xs a)) = actionRunner a @ [RunnerPerform]
      \<and> Perform E (xs @ [RunnerSent received]) a = (True, Perform_finish E received (Perform_start a)))"
proof -
  have "Perform E xs a = (False, Perform_start a)"
    if "\<forall>x \<in> set xs. x = CancelCalled \<or> x = CleanupCalled"
    using Perform_waiting_calls [OF that, of E "[]" "Perform_start a"] by (simp add: Perform_def)
  moreover have "Perform E (xs @ [RunnerSent received]) a = (True, Perform_finish E received (Perform_start a))"
    if "\<forall>x \<in> set xs. x = CancelCalled \<or> x = CleanupCalled"
    using Perform_waiting_calls [OF that, of E "[RunnerSent received]" "Perform_start a"]
    by (simp add: Perform_def)
  ultimately show ?thesis
    by (simp add: Cancel_def Cleanup_def Perform_start_def)
qed

theorem Cancel_Cleanup_no_ops_witness:
  "Perform example_Error [CancelCalled, CleanupCalled, CancelCalled] example_runOnce
       = (False, Perform_start example_runOnce)
   \<and> actionRunner (snd (Perform example_Error [CancelCalled, CleanupCalled, CancelCalled] example_runOnce))
       = [RunnerPerform]
   \<and> Perform example_Error ([CancelCalled, CleanupCalled, CancelCalled] @ [RunnerSent None]) example_runOnce
       = (True, Perform_finish example_Error None (Perform_start example_runOnce))"
proof -
  have h: "\<forall>x \<in> set [CancelCalled, CleanupCalled, CancelCalled]. x = CancelCalled \<or> x = CleanupCalled"
    by simp
  have "actionRunner example_runOnce = []"
    by (simp add: example_runOnce_def)
  with h Cancel_Cleanup_no_ops [of example_runOnce "[CancelCalled, CleanupCalled, CancelCalled]" example_Error None]
  show ?thesis by (simp add: Perform_start_def)
qed

end
